theory Spec2Isabelle
  imports Main "HOL-Library.Word" "HOL-Library.Sublist"
begin

section \<open>Errors\<close>

text \<open>
  Go error values as the service package builds them: \<open>errors.New\<close> and \<open>fmt.Errorf\<close>
  give a message, \<open>errors.Wrap\<close> and \<open>errors.Wrapf\<close> put a message in front of a cause, and
  \<open>&retry.RetriableError{Err: cause}\<close> marks the cause as worth another attempt. Errors
  that come from the cluster client, the template engine or the browser are arbitrary
  values of this type.
\<close>

datatype error =
    New string
  | Wrap error string
  | RetriableError error

text \<open>The retry loop tells the two kinds apart by the outermost wrapper only.\<close>

fun isRetriable :: "error \<Rightarrow> bool" where
  "isRetriable (RetriableError cause) = True"
| "isRetriable (New msg) = False"
| "isRetriable (Wrap cause msg) = False"

section \<open>Cluster objects\<close>

type_synonym int32 = "32 word"

datatype IntOrStringType = intstr_Int | intstr_String

text \<open>\<open>intstr.IntOrString\<close>: a struct that holds both fields whatever its type tag says.\<close>

record IntOrString =
  intstr_Type :: IntOrStringType
  IntVal :: int32
  StrVal :: string

definition FromInt :: "int32 \<Rightarrow> IntOrString" where
  "FromInt val = \<lparr>intstr_Type = intstr_Int, IntVal = val, StrVal = []\<rparr>"

definition FromString :: "string \<Rightarrow> IntOrString" where
  "FromString val = \<lparr>intstr_Type = intstr_String, IntVal = 0, StrVal = val\<rparr>"

record ServicePort =
  sp_Name :: string
  sp_Port :: int32
  TargetPort :: IntOrString
  NodePort :: int32

text \<open>\<open>core.Service\<close>, with \<open>ObjectMeta\<close> and \<open>Spec\<close> flattened to the fields that are read.\<close>

record Service =
  svc_Namespace :: string
  svc_Name :: string
  svc_Ports :: "ServicePort list"

record EndpointPort =
  ep_Name :: string
  ep_Port :: int32

record EndpointSubset =
  subset_Ports :: "EndpointPort list"

record Endpoints =
  Subsets :: "EndpointSubset list"

type_synonym SecretType = string

record Secret =
  secret_Name :: string
  secret_Labels :: "string \<rightharpoonup> string"
  secret_Data :: "string \<rightharpoonup> 8 word list"
  secret_Type :: SecretType

section \<open>The cluster client\<close>

text \<open>
  \<open>typed_core.CoreV1Interface\<close> is an interface of client-go; the package only calls it.
  Each call is a transition of an abstract world \<open>'s\<close>: it returns what the Go call
  returns together with the world afterwards, so a client may answer differently each
  time. The first argument of every accessor is the namespace.

  \<open>Endpoints_Get\<close> returns the pointer and the error side by side, as the caller
  tests both. \<open>Secrets_Get\<close> returns the object it allocated (zero-valued when the
  lookup fails) and the error.
\<close>

record 's CoreV1Interface =
  Services_Get :: "string \<Rightarrow> string \<Rightarrow> 's \<Rightarrow> (error + Service) \<times> 's"
  Endpoints_Get :: "string \<Rightarrow> string \<Rightarrow> 's \<Rightarrow> (Endpoints option \<times> error option) \<times> 's"
  Secrets_Get :: "string \<Rightarrow> string \<Rightarrow> 's \<Rightarrow> (Secret \<times> error option) \<times> 's"
  Secrets_Create :: "string \<Rightarrow> Secret \<Rightarrow> 's \<Rightarrow> error option \<times> 's"
  Secrets_Delete :: "string \<Rightarrow> string \<Rightarrow> 's \<Rightarrow> error option \<times> 's"

text \<open>\<open>K8sClient\<close>, the interface behind the package variable \<open>K8s\<close>.\<close>

record 's K8sClient =
  GetCoreClient :: "'s \<Rightarrow> (error + 's CoreV1Interface) \<times> 's"

section \<open>Resolving the URLs of a service\<close>

record SvcURL =
  Namespace :: string
  Name :: string
  URLs :: "string list"
  PortNames :: "string list"

text \<open>The zero value \<open>SvcURL{}\<close>; a nil slice and an empty one are both \<open>[]\<close>.\<close>

definition SvcURL_zero :: SvcURL where
  "SvcURL_zero = \<lparr>Namespace = [], Name = [], URLs = [], PortNames = []\<rparr>"

text \<open>The anonymous struct handed to the template.\<close>

record TemplateData =
  td_IP :: string
  td_Port :: int32
  td_Name :: string

text \<open>
  \<open>text/template\<close> is Go's; \<open>t.Execute(&doc, data)\<close> is a function from the data to the
  rendered text or an error. The buffer is dropped when it fails.
\<close>

type_synonym Template = "TemplateData \<Rightarrow> error + string"

text \<open>Reading a Go map: a missing key gives the zero value, the empty string.\<close>

definition mapIndex :: "(int32 \<rightharpoonup> string) \<Rightarrow> int32 \<Rightarrow> string" where
  "mapIndex m k = (case m k of None \<Rightarrow> [] | Some v \<Rightarrow> v)"

text \<open>The two nested loops that fill \<open>m\<close>, from the map \<open>m0\<close> on.\<close>

definition indexSubsets :: "EndpointSubset list \<Rightarrow> (int32 \<rightharpoonup> string) \<Rightarrow> (int32 \<rightharpoonup> string)" where
  "indexSubsets subsets m0 =
     fold (\<lambda>ept m. fold (\<lambda>p m'. m'(ep_Port p \<mapsto> ep_Name p)) (subset_Ports ept) m) subsets m0"

text \<open>
  Lines 180 to 188 of \<open>printURLsForService\<close>: the map stays empty unless the lookup gave
  no error, a non-nil object and at least one subset.
\<close>

definition portIndex :: "Endpoints option \<times> error option \<Rightarrow> (int32 \<rightharpoonup> string)" where
  "portIndex r =
     (case r of
        (Some endpoints, None) \<Rightarrow>
          if length (Subsets endpoints) > 0 then indexSubsets (Subsets endpoints) Map.empty
          else Map.empty
      | (Some endpoints, Some err) \<Rightarrow> Map.empty
      | (None, err) \<Rightarrow> Map.empty)"

text \<open>
  The loop over \<open>svc.Spec.Ports\<close>, with the two slices it appends to. A failing template
  returns at once.
\<close>

fun renderPorts ::
  "Template \<Rightarrow> string \<Rightarrow> (int32 \<rightharpoonup> string) \<Rightarrow> ServicePort list \<Rightarrow> string list \<Rightarrow> string list
     \<Rightarrow> error + (string list \<times> string list)" where
  "renderPorts t ip m [] urls portNames = Inr (urls, portNames)"
| "renderPorts t ip m (port # ports) urls portNames =
     (if 0 <s NodePort port then
        (case t \<lparr>td_IP = ip, td_Port = NodePort port,
                 td_Name = mapIndex m (IntVal (TargetPort port))\<rparr> of
           Inl err \<Rightarrow> Inl err
         | Inr doc \<Rightarrow>
             renderPorts t ip m ports (urls @ [doc])
               (portNames @ [mapIndex m (IntVal (TargetPort port))]))
      else renderPorts t ip m ports urls portNames)"

definition printURLsForService ::
  "'s CoreV1Interface \<Rightarrow> string \<Rightarrow> string \<Rightarrow> string \<Rightarrow> Template option \<Rightarrow> 's
     \<Rightarrow> (SvcURL \<times> error option) \<times> 's" where
  "printURLsForService c ip service namespace t s =
     (case t of
        None \<Rightarrow>
          ((SvcURL_zero,
            Some (New ''Error, attempted to generate service url with nil --format template'')), s)
      | Some tmpl \<Rightarrow>
          (case Services_Get c namespace service s of
             (Inl err, s1) \<Rightarrow>
               ((SvcURL_zero,
                 Some (Wrap err (''service '' @ [CHR 0x27] @ service @ [CHR 0x27]
                                  @ '' could not be found running''))), s1)
           | (Inr svc, s1) \<Rightarrow>
               (case Endpoints_Get c namespace service s1 of
                  (endpoints, s2) \<Rightarrow>
                    (case renderPorts tmpl ip (portIndex endpoints) (svc_Ports svc) [] [] of
                       Inl err \<Rightarrow> ((SvcURL_zero, Some err), s2)
                     | Inr (urls, portNames) \<Rightarrow>
                         ((\<lparr>Namespace = svc_Namespace svc, Name = svc_Name svc,
                            URLs = urls, PortNames = portNames\<rparr>, None), s2)))))"

section \<open>GetServiceURLsForService\<close>

text \<open>
  The collaborators outside the package, as the functions the code calls on them, each a
  transition of the world \<open>'s\<close>:
  \<^item> \<open>K8s\<close>, the package variable holding the current client;
  \<open>CheckIfHostExistsAndLoad\<close>, already applied to the \<open>api\<close> argument and to
  \<open>config.GetMachineName()\<close>, and the loaded host's \<open>Driver.GetIP\<close>;
  \<^item> \<open>retry_Expo\<close>, the backoff loop \<open>retry.Expo(callback, initInterval, maxTime)\<close> of the
  package \<open>pkg/util/retry\<close>: it is a parameter, and nothing is assumed of it;
  \<^item> \<open>url_Parse\<close>, Go's \<open>url.Parse\<close>, a pure function;
  \<^item> the table writer on standard output, \<open>out.T\<close>, \<open>out.ErrT\<close> and \<open>browser.OpenURL\<close>.
\<close>

record 's Host =
  Driver_GetIP :: "'s \<Rightarrow> (error + string) \<times> 's"

record URL =
  Scheme :: string

datatype StyleEnum = out_Empty | out_Sad | out_Celebrate

datatype V = V_string string | V_error error

record 's Env =
  K8s :: "'s K8sClient"
  CheckIfHostExistsAndLoad :: "'s \<Rightarrow> (error + 's Host) \<times> 's"
  retry_Expo :: "('s \<Rightarrow> error option \<times> 's) \<Rightarrow> 64 word \<Rightarrow> 64 word \<Rightarrow> 's \<Rightarrow> error option \<times> 's"
  url_Parse :: "string \<Rightarrow> error + URL"
  table_Render :: "string list \<Rightarrow> string list list \<Rightarrow> 's \<Rightarrow> 's"
  out_T :: "StyleEnum \<Rightarrow> string \<Rightarrow> (string \<times> V) list \<Rightarrow> 's \<Rightarrow> 's"
  out_ErrT :: "StyleEnum \<Rightarrow> string \<Rightarrow> (string \<times> V) list \<Rightarrow> 's \<Rightarrow> 's"
  browser_OpenURL :: "string \<Rightarrow> 's \<Rightarrow> error option \<times> 's"

definition GetServiceURLsForService ::
  "'s Env \<Rightarrow> string \<Rightarrow> string \<Rightarrow> Template option \<Rightarrow> 's \<Rightarrow> (SvcURL \<times> error option) \<times> 's" where
  "GetServiceURLsForService E namespace service t s =
     (case CheckIfHostExistsAndLoad E s of
        (Inl err, s1) \<Rightarrow>
          ((SvcURL_zero, Some (Wrap err ''Error checking if api exist and loading it'')), s1)
      | (Inr host, s1) \<Rightarrow>
          (case Driver_GetIP host s1 of
             (Inl err, s2) \<Rightarrow> ((SvcURL_zero, Some (Wrap err ''Error getting ip from host'')), s2)
           | (Inr ip, s2) \<Rightarrow>
               (case GetCoreClient (K8s E) s2 of
                  (Inl err, s3) \<Rightarrow> ((SvcURL_zero, Some err), s3)
                | (Inr client, s3) \<Rightarrow> printURLsForService client ip service namespace t s3)))"

section \<open>CheckService\<close>

text \<open>The \<open>glog.Infof\<close> line before the final return only writes to the diagnostic log.\<close>

definition CheckService :: "'s K8sClient \<Rightarrow> string \<Rightarrow> string \<Rightarrow> 's \<Rightarrow> error option \<times> 's" where
  "CheckService K namespace service s =
     (case GetCoreClient K s of
        (Inl err, s1) \<Rightarrow> (Some (Wrap err ''Error getting kubernetes client''), s1)
      | (Inr client, s1) \<Rightarrow>
          (case Services_Get client namespace service s1 of
             (Inl err, s2) \<Rightarrow>
               (Some (RetriableError (Wrap err (''Error getting service '' @ service))), s2)
           | (Inr svc, s2) \<Rightarrow>
               if length (svc_Ports svc) = 0
               then (Some (New (namespace @ '':'' @ service @ '' has no ports'')), s2)
               else (None, s2)))"

section \<open>OptionallyHTTPSFormattedURLString\<close>

text \<open>\<open>strings.Replace(s, old, new, 1)\<close>: the leftmost occurrence of \<open>old\<close> becomes \<open>new\<close>.\<close>

fun strings_Replace1 :: "string \<Rightarrow> string \<Rightarrow> string \<Rightarrow> string" where
  "strings_Replace1 s old new =
     (if prefix old s then new @ drop (length old) s
      else (case s of [] \<Rightarrow> [] | c # cs \<Rightarrow> c # strings_Replace1 cs old new))"

definition OptionallyHTTPSFormattedURLString ::
  "(string \<Rightarrow> error + URL) \<Rightarrow> string \<Rightarrow> bool \<Rightarrow> string \<times> bool" where
  "OptionallyHTTPSFormattedURLString parse bareURLString https =
     (let isHTTPSchemedURL =
            (case parse bareURLString of
               Inr u \<Rightarrow> Scheme u = ''http''
             | Inl parseErr \<Rightarrow> False);
          httpsFormattedString =
            (if isHTTPSchemedURL \<and> https
             then strings_Replace1 bareURLString ''http'' ''https''
             else bareURLString)
      in (httpsFormattedString, isHTTPSchemedURL))"

section \<open>WaitAndMaybeOpenService\<close>

definition PrintServiceList :: "'s Env \<Rightarrow> string list list \<Rightarrow> 's \<Rightarrow> 's" where
  "PrintServiceList E data s =
     table_Render E [''Namespace'', ''Name'', ''Target Port'', ''URL''] data s"

fun strings_Join :: "string list \<Rightarrow> string \<Rightarrow> string" where
  "strings_Join [] sep = []"
| "strings_Join [x] sep = x"
| "strings_Join (x # y # ys) sep = x @ sep @ strings_Join (y # ys) sep"

text \<open>\<open>time.Second\<close> in nanoseconds; a \<open>time.Duration\<close> is a 64-bit integer, and so is \<open>int\<close>.\<close>

definition Second :: "64 word" where
  "Second = 1000000000"

text \<open>The closing loop over \<open>serviceURL.URLs\<close>.\<close>

fun openURLs :: "'s Env \<Rightarrow> string \<Rightarrow> string \<Rightarrow> bool \<Rightarrow> bool \<Rightarrow> string list \<Rightarrow> 's \<Rightarrow> 's" where
  "openURLs E namespace service urlMode https [] s = s"
| "openURLs E namespace service urlMode https (bareURLString # rest) s =
     (case OptionallyHTTPSFormattedURLString (url_Parse E) bareURLString https of
        (urlString, isHTTPSchemedURL) \<Rightarrow>
          if urlMode \<or> \<not> isHTTPSchemedURL
          then openURLs E namespace service urlMode https rest (out_T E out_Empty urlString [] s)
          else
            (case browser_OpenURL E urlString
                    (out_T E out_Celebrate
                       ''Opening kubernetes service  {{.namespace_name}}/{{.service_name}} in default browser...''
                       [(''namespace_name'', V_string namespace), (''service_name'', V_string service)] s) of
               (Some err, s2) \<Rightarrow>
                 openURLs E namespace service urlMode https rest
                   (out_ErrT E out_Empty ''browser failed to open url: {{.error}}''
                      [(''error'', V_error err)] s2)
             | (None, s2) \<Rightarrow> openURLs E namespace service urlMode https rest s2))"

definition WaitAndMaybeOpenService ::
  "'s Env \<Rightarrow> string \<Rightarrow> string \<Rightarrow> Template option \<Rightarrow> bool \<Rightarrow> bool \<Rightarrow> 64 word \<Rightarrow> 64 word \<Rightarrow> 's
     \<Rightarrow> error option \<times> 's" where
  "WaitAndMaybeOpenService E namespace service urlTemplate urlMode https wait interval0 s =
     (let interval = (if interval0 = 0 then 1 else interval0);
          chkSVC = CheckService (K8s E) namespace service
      in case retry_Expo E chkSVC (interval * Second) (wait * Second) s of
           (Some err, s1) \<Rightarrow>
             (Some (Wrap err (''Could not find finalized endpoint being pointed to by '' @ service)),
              s1)
         | (None, s1) \<Rightarrow>
             (case GetServiceURLsForService E namespace service urlTemplate s1 of
                ((serviceURL, Some err), s2) \<Rightarrow>
                  (Some (Wrap err
                     ''Check that minikube is running and that you have specified the correct namespace''),
                   s2)
              | ((serviceURL, None), s2) \<Rightarrow>
                  (let s3 =
                         (if \<not> urlMode
                          then PrintServiceList E
                                 (if length (URLs serviceURL) = 0
                                  then [[namespace, service, [], ''No node port'']]
                                  else [[namespace, service,
                                         strings_Join (PortNames serviceURL) [CHR 0x0A],
                                         strings_Join (URLs serviceURL) [CHR 0x0A]]]) s2
                          else s2)
                   in if length (URLs serviceURL) = 0
                      then (None,
                            out_T E out_Sad
                              ''service {{.namespace_name}}/{{.service_name}} has no node port''
                              [(''namespace_name'', V_string namespace),
                               (''service_name'', V_string service)] s3)
                      else (None, openURLs E namespace service urlMode https (URLs serviceURL) s3))))"

section \<open>Secrets\<close>


text \<open>\<open>[]byte(value)\<close>: the bytes of a Go string.\<close>

definition bytes :: "string \<Rightarrow> 8 word list" where
  "bytes v = map (\<lambda>c. word_of_nat (of_char c)) v"

definition DeleteSecret :: "'s K8sClient \<Rightarrow> string \<Rightarrow> string \<Rightarrow> 's \<Rightarrow> error option \<times> 's" where
  "DeleteSecret K namespace name s =
     (case GetCoreClient K s of
        (Inl err, s1) \<Rightarrow> (Some (RetriableError err), s1)
      | (Inr client, s1) \<Rightarrow>
          (case Secrets_Delete client namespace name s1 of
             (Some err, s2) \<Rightarrow> (Some (RetriableError err), s2)
           | (None, s2) \<Rightarrow> (None, s2)))"


section \<open>A cluster in memory\<close>

text \<open>
  A concrete world to run the package against: the objects of a cluster and what has been
  written to the terminal. Its client answers as the API server does: reading or deleting
  an object that is absent fails, creating one that exists (or has no name) fails, and a
  read changes nothing.
\<close>

datatype event =
    ExpoCalled "64 word" "64 word"
  | TableRendered "string list" "string list list"
  | Printed StyleEnum string "(string \<times> V) list"
  | ErrPrinted StyleEnum string "(string \<times> V) list"
  | BrowserOpened string

record World =
  w_services :: "Service list"
  w_endpoints :: "(string \<times> string \<times> Endpoints) list"
  w_secrets :: "(string \<times> Secret) list"
  w_output :: "event list"

definition NotFound :: "string \<Rightarrow> error" where
  "NotFound name = New (name @ '' not found'')"

definition AlreadyExists :: "string \<Rightarrow> error" where
  "AlreadyExists name = New (name @ '' already exists'')"

definition Secret_zero :: Secret where
  "Secret_zero = \<lparr>secret_Name = [], secret_Labels = Map.empty, secret_Data = Map.empty,
                   secret_Type = []\<rparr>"

definition isSecret :: "string \<Rightarrow> string \<Rightarrow> string \<times> Secret \<Rightarrow> bool" where
  "isSecret namespace name e = (fst e = namespace \<and> secret_Name (snd e) = name)"

definition memCore :: "World CoreV1Interface" where
  "memCore =
     \<lparr>Services_Get = (\<lambda>namespace name w.
        (case find (\<lambda>svc. svc_Namespace svc = namespace \<and> svc_Name svc = name) (w_services w) of
           None \<Rightarrow> (Inl (NotFound name), w)
         | Some svc \<Rightarrow> (Inr svc, w))),
      Endpoints_Get = (\<lambda>namespace name w.
        (case find (\<lambda>e. fst e = namespace \<and> fst (snd e) = name) (w_endpoints w) of
           None \<Rightarrow> ((None, Some (NotFound name)), w)
         | Some e \<Rightarrow> ((Some (snd (snd e)), None), w))),
      Secrets_Get = (\<lambda>namespace name w.
        (case find (isSecret namespace name) (w_secrets w) of
           None \<Rightarrow> ((Secret_zero, Some (NotFound name)), w)
         | Some e \<Rightarrow> ((snd e, None), w))),
      Secrets_Create = (\<lambda>namespace secret w.
        if secret_Name secret = [] then (Some (New ''name is required''), w)
        else if find (isSecret namespace (secret_Name secret)) (w_secrets w) \<noteq> None
        then (Some (AlreadyExists (secret_Name secret)), w)
        else (None, w\<lparr>w_secrets := w_secrets w @ [(namespace, secret)]\<rparr>)),
      Secrets_Delete = (\<lambda>namespace name w.
        if find (isSecret namespace name) (w_secrets w) = None then (Some (NotFound name), w)
        else (None, w\<lparr>w_secrets := filter (\<lambda>e. \<not> isSecret namespace name e) (w_secrets w)\<rparr>))\<rparr>"

definition memK8s :: "World K8sClient" where
  "memK8s = \<lparr>GetCoreClient = (\<lambda>w. (Inr memCore, w))\<rparr>"

text \<open>A client getter that cannot load its configuration.\<close>

definition brokenK8s :: "World K8sClient" where
  "brokenK8s = \<lparr>GetCoreClient = (\<lambda>w. (Inl (New ''kubeConfig: no configuration''), w))\<rparr>"

definition emit :: "event \<Rightarrow> World \<Rightarrow> World" where
  "emit e w = w\<lparr>w_output := w_output w @ [e]\<rparr>"

text \<open>
  The scheme step of Go's \<open>url.Parse\<close>: the fragment is cut off, control bytes are
  refused, then \<open>getscheme\<close> scans for the first colon and the scheme is lower-cased.
  The later steps of the parser (authority, port, escapes), which can still refuse a URL,
  are left out: \<open>parseScheme\<close> stands for \<open>url.Parse\<close> on the URLs that pass them.
\<close>

definition isLetter :: "char \<Rightarrow> bool" where
  "isLetter c = ((97 \<le> (of_char c :: nat) \<and> (of_char c :: nat) \<le> 122)
               \<or> (65 \<le> (of_char c :: nat) \<and> (of_char c :: nat) \<le> 90))"

definition isSchemeMark :: "char \<Rightarrow> bool" where
  "isSchemeMark c = ((48 \<le> (of_char c :: nat) \<and> (of_char c :: nat) \<le> 57)
                   \<or> c = CHR ''+'' \<or> c = CHR ''-'' \<or> c = CHR ''.'')"

fun getscheme :: "string \<Rightarrow> string \<Rightarrow> string \<Rightarrow> error + (string \<times> string)" where
  "getscheme rawurl seen [] = Inr ([], rawurl)"
| "getscheme rawurl seen (c # cs) =
     (if isLetter c then getscheme rawurl (seen @ [c]) cs
      else if isSchemeMark c
      then (if seen = [] then Inr ([], rawurl) else getscheme rawurl (seen @ [c]) cs)
      else if c = CHR '':''
      then (if seen = [] then Inl (New ''missing protocol scheme'') else Inr (seen, cs))
      else Inr ([], rawurl))"

definition toLower :: "char \<Rightarrow> char" where
  "toLower c = (if 65 \<le> (of_char c :: nat) \<and> (of_char c :: nat) \<le> 90
                then char_of ((of_char c :: nat) + 32) else c)"

definition isCTL :: "char \<Rightarrow> bool" where
  "isCTL c = ((of_char c :: nat) < 32 \<or> (of_char c :: nat) = 127)"

definition parseScheme :: "string \<Rightarrow> error + URL" where
  "parseScheme rawurl =
     (let u = takeWhile (\<lambda>c. c \<noteq> CHR ''#'') rawurl
      in if list_ex isCTL u then Inl (New ''net/url: invalid control character in URL'')
         else if u = ''*'' then Inr \<lparr>Scheme = []\<rparr>
         else (case getscheme u [] u of
                 Inl err \<Rightarrow> Inl err
               | Inr (scheme, rest) \<Rightarrow> Inr \<lparr>Scheme = map toLower scheme\<rparr>))"

text \<open>
  An environment on the world in memory. The node has the address \<open>ip\<close>. Its backoff
  loop is a stand-in that notes the two durations it was given and makes one attempt;
  it is there to see what \<open>WaitAndMaybeOpenService\<close> passes on, not to model
  \<open>retry.Expo\<close>.
\<close>

definition memEnv :: "string \<Rightarrow> World Env" where
  "memEnv ip =
     \<lparr>K8s = memK8s,
      CheckIfHostExistsAndLoad = (\<lambda>w. (Inr \<lparr>Driver_GetIP = (\<lambda>w'. (Inr ip, w'))\<rparr>, w)),
      retry_Expo = (\<lambda>callback initInterval maxTime w.
                      callback (emit (ExpoCalled initInterval maxTime) w)),
      url_Parse = parseScheme,
      table_Render = (\<lambda>header data. emit (TableRendered header data)),
      out_T = (\<lambda>style format args. emit (Printed style format args)),
      out_ErrT = (\<lambda>style format args. emit (ErrPrinted style format args)),
      browser_OpenURL = (\<lambda>url w. (None, emit (BrowserOpened url) w))\<rparr>"

section \<open>Notions used in the statements\<close>

text \<open>The declared ports that have a node port, in declaration order.\<close>

definition nodePorts :: "ServicePort list \<Rightarrow> ServicePort list" where
  "nodePorts ports = filter (\<lambda>port. 0 <s NodePort port) ports"

text \<open>The name a port resolves to, \<open>m[port.TargetPort.IntVal]\<close>, and the data it is rendered with.\<close>

definition resolvedName :: "(int32 \<rightharpoonup> string) \<Rightarrow> ServicePort \<Rightarrow> string" where
  "resolvedName m port = mapIndex m (IntVal (TargetPort port))"

definition portData :: "string \<Rightarrow> (int32 \<rightharpoonup> string) \<Rightarrow> ServicePort \<Rightarrow> TemplateData" where
  "portData ip m port = \<lparr>td_IP = ip, td_Port = NodePort port, td_Name = resolvedName m port\<rparr>"

text \<open>
  The endpoint ports in the order the two loops visit them, and the name of the last one
  among them that carries the number \<open>k\<close>.
\<close>

definition allEndpointPorts :: "EndpointSubset list \<Rightarrow> EndpointPort list" where
  "allEndpointPorts subsets = concat (map subset_Ports subsets)"

definition lastNamed :: "EndpointPort list \<Rightarrow> int32 \<Rightarrow> string option" where
  "lastNamed ps k = map_option ep_Name (find (\<lambda>p. ep_Port p = k) (rev ps))"

definition isOK :: "error + 'a \<Rightarrow> bool" where
  "isOK x = (case x of Inl err \<Rightarrow> False | Inr v \<Rightarrow> True)"

text \<open>Whether \<open>old\<close> occurs in \<open>s\<close> as a substring.\<close>

fun occursIn :: "string \<Rightarrow> string \<Rightarrow> bool" where
  "occursIn old [] = (old = [])"
| "occursIn old (c # cs) = (prefix old (c # cs) \<or> occursIn old cs)"

text \<open>The secret that \<open>CreateSecret\<close> builds.\<close>

definition opaqueSecret :: "string \<Rightarrow> (string \<rightharpoonup> string) \<Rightarrow> (string \<rightharpoonup> string) \<Rightarrow> Secret" where
  "opaqueSecret name dataValues labels =
     \<lparr>secret_Name = name, secret_Labels = labels,
      secret_Data = (\<lambda>key. map_option bytes (dataValues key)), secret_Type = ''Opaque''\<rparr>"

section \<open>An example cluster\<close>

text \<open>
  The service \<open>default/web\<close> declares three ports: one with an integer target port, one
  without a node port, and one whose target port is given by name. Its endpoints list
  port 8080 in two subsets under different names. \<open>default/internal\<close> has no node port,
  \<open>default/empty\<close> declares no port at all, and \<open>default/db-pass\<close> is a secret.
\<close>

definition exPorts :: "ServicePort list" where
  "exPorts =
     [\<lparr>sp_Name = ''web'', sp_Port = 80, TargetPort = FromInt 8080, NodePort = 30080\<rparr>,
      \<lparr>sp_Name = ''admin'', sp_Port = 9000, TargetPort = FromInt 9000, NodePort = 0\<rparr>,
      \<lparr>sp_Name = ''metrics'', sp_Port = 9100, TargetPort = FromString ''metrics'',
        NodePort = 30910\<rparr>]"

definition exEndpoints :: Endpoints where
  "exEndpoints =
     \<lparr>Subsets =
        [\<lparr>subset_Ports = [\<lparr>ep_Name = ''http'', ep_Port = 8080\<rparr>]\<rparr>,
         \<lparr>subset_Ports = [\<lparr>ep_Name = ''http-alt'', ep_Port = 8080\<rparr>,
                          \<lparr>ep_Name = ''metrics'', ep_Port = 9100\<rparr>]\<rparr>]\<rparr>"

definition exWeb :: Service where
  "exWeb = \<lparr>svc_Namespace = ''default'', svc_Name = ''web'', svc_Ports = exPorts\<rparr>"

definition exWorld :: World where
  "exWorld =
     \<lparr>w_services =
        [exWeb,
         \<lparr>svc_Namespace = ''default'', svc_Name = ''internal'',
           svc_Ports = [\<lparr>sp_Name = ''grpc'', sp_Port = 50051, TargetPort = FromInt 50051,
                         NodePort = 0\<rparr>]\<rparr>,
         \<lparr>svc_Namespace = ''default'', svc_Name = ''empty'', svc_Ports = []\<rparr>],
      w_endpoints = [(''default'', ''web'', exEndpoints)],
      w_secrets = [(''default'', opaqueSecret ''db-pass'' [''password'' \<mapsto> ''old''] Map.empty)],
      w_output = []\<rparr>"




text \<open>
  A second cluster: the only port of \<open>default/zero\<close> targets the port named \<open>metrics\<close>, and
  its endpoints list a port numbered 0 under that very name.
\<close>

definition exZero :: Service where
  "exZero =
     \<lparr>svc_Namespace = ''default'', svc_Name = ''zero'',
      svc_Ports = [\<lparr>sp_Name = ''metrics'', sp_Port = 9100, TargetPort = FromString ''metrics'',
                    NodePort = 30910\<rparr>]\<rparr>"

definition exZeroWorld :: World where
  "exZeroWorld =
     \<lparr>w_services = [exZero],
      w_endpoints =
        [(''default'', ''zero'',
          \<lparr>Subsets = [\<lparr>subset_Ports = [\<lparr>ep_Name = ''metrics'', ep_Port = 0\<rparr>]\<rparr>]\<rparr>)],
      w_secrets = [],
      w_output = []\<rparr>"


text \<open>A template in the manner of \<open>http://{{.IP}}/{{.Name}}\<close>, and one that fails on port 30910.\<close>

definition exTemplate :: Template where
  "exTemplate d = Inr (''http://'' @ td_IP d @ ''/'' @ td_Name d)"

definition failingTemplate :: Template where
  "failingTemplate d =
     (if td_Port d = 30910 then Inl (New ''template: cannot evaluate field'')
      else Inr (''http://'' @ td_IP d @ ''/'' @ td_Name d))"

section \<open>Lemmas\<close>

declare strings_Replace1.simps [simp del]

lemma find_app:
  "find P (xs @ ys) = (case find P xs of None \<Rightarrow> find P ys | Some x \<Rightarrow> Some x)"
  by (induction xs) simp_all

lemma fold_ports_last:
  "fold (\<lambda>p m'. m'(ep_Port p \<mapsto> ep_Name p)) ps m k =
     (case lastNamed ps k of None \<Rightarrow> m k | Some n \<Rightarrow> Some n)"
proof (induction ps arbitrary: m)
  case Nil
  show ?case by (simp add: lastNamed_def)
next
  case (Cons p ps)
  have "fold (\<lambda>p m'. m'(ep_Port p \<mapsto> ep_Name p)) (p # ps) m k =
        fold (\<lambda>p m'. m'(ep_Port p \<mapsto> ep_Name p)) ps (m(ep_Port p \<mapsto> ep_Name p)) k"
    by (simp only: fold_simps)
  also have "\<dots> = (case lastNamed ps k of None \<Rightarrow> (m(ep_Port p \<mapsto> ep_Name p)) k
                                      | Some n \<Rightarrow> Some n)"
    by (rule Cons.IH)
  also have "\<dots> = (case lastNamed (p # ps) k of None \<Rightarrow> m k | Some n \<Rightarrow> Some n)"
    by (simp add: lastNamed_def find_app split: option.splits)
  finally show ?case .
qed

lemma lastNamed_append:
  "lastNamed (ps @ qs) k = (case lastNamed qs k of None \<Rightarrow> lastNamed ps k | Some n \<Rightarrow> Some n)"
  by (simp add: lastNamed_def find_app split: option.splits)

lemma indexSubsets_last:
  "indexSubsets subsets m0 k =
     (case lastNamed (allEndpointPorts subsets) k of None \<Rightarrow> m0 k | Some n \<Rightarrow> Some n)"
proof (induction subsets arbitrary: m0)
  case Nil
  show ?case by (simp add: indexSubsets_def allEndpointPorts_def lastNamed_def)
next
  case (Cons ept subsets)
  have step: "indexSubsets (ept # subsets) m0 =
      indexSubsets subsets (fold (\<lambda>p m'. m'(ep_Port p \<mapsto> ep_Name p)) (subset_Ports ept) m0)"
    by (simp add: indexSubsets_def)
  have app: "allEndpointPorts (ept # subsets) = subset_Ports ept @ allEndpointPorts subsets"
    by (simp add: allEndpointPorts_def)
  show ?case
    unfolding step app Cons.IH lastNamed_append fold_ports_last
    by (simp split: option.splits)
qed

lemma renderPorts_Inr:
  "renderPorts t ip m ports urls portNames = Inr (u, n) \<Longrightarrow>
     n = portNames @ map (resolvedName m) (nodePorts ports) \<and>
     map Inr u = map Inr urls @ map (\<lambda>port. t (portData ip m port)) (nodePorts ports)"
proof (induction ports arbitrary: urls portNames)
  case Nil
  then show ?case by (simp add: nodePorts_def)
next
  case (Cons port ports)
  show ?case
  proof (cases "0 <s NodePort port")
    case False
    with Cons.prems have "renderPorts t ip m ports urls portNames = Inr (u, n)" by simp
    from Cons.IH [OF this] False show ?thesis by (simp add: nodePorts_def)
  next
    case True
    show ?thesis
    proof (cases "t (portData ip m port)")
      case (Inl err)
      with True Cons.prems show ?thesis by (simp add: portData_def resolvedName_def)
    next
      case (Inr doc)
      with True Cons.prems
      have "renderPorts t ip m ports (urls @ [doc]) (portNames @ [resolvedName m port]) = Inr (u, n)"
        by (simp add: portData_def resolvedName_def)
      from Cons.IH [OF this] True Inr show ?thesis by (simp add: nodePorts_def)
    qed
  qed
qed

lemma renderPorts_fails:
  "port \<in> set (nodePorts ports) \<Longrightarrow> t (portData ip m port) = Inl e \<Longrightarrow>
     \<exists>err. renderPorts t ip m ports urls portNames = Inl err"
proof (induction ports arbitrary: urls portNames)
  case Nil
  then show ?case by (simp add: nodePorts_def)
next
  case (Cons p ports)
  show ?case
  proof (cases "0 <s NodePort p")
    case False
    with Cons.prems have "port \<in> set (nodePorts ports)" by (simp add: nodePorts_def)
    from Cons.IH [OF this Cons.prems(2)] False show ?thesis by simp
  next
    case True
    show ?thesis
    proof (cases "t (portData ip m p)")
      case (Inl e')
      with True show ?thesis by (simp add: portData_def resolvedName_def)
    next
      case (Inr doc)
      with Cons.prems True have "port \<in> set (nodePorts ports)" by (auto simp add: nodePorts_def)
      from Cons.IH [OF this Cons.prems(2)] True Inr show ?thesis
        by (simp add: portData_def resolvedName_def)
    qed
  qed
qed

lemma renderPorts_Inl_first:
  "renderPorts t ip m ports urls portNames = Inl err \<Longrightarrow>
     \<exists>pre port post. nodePorts ports = pre @ port # post \<and>
        list_all (\<lambda>p. isOK (t (portData ip m p))) pre \<and> t (portData ip m port) = Inl err"
proof (induction ports arbitrary: urls portNames)
  case Nil
  then show ?case by simp
next
  case (Cons p ports)
  show ?case
  proof (cases "0 <s NodePort p")
    case False
    with Cons.prems have "renderPorts t ip m ports urls portNames = Inl err" by simp
    from Cons.IH [OF this] False show ?thesis by (simp add: nodePorts_def)
  next
    case True
    show ?thesis
    proof (cases "t (portData ip m p)")
      case (Inl e)
      with True Cons.prems have e: "e = err" by (simp add: portData_def resolvedName_def)
      have "nodePorts (p # ports) = [] @ p # nodePorts ports" using True by (simp add: nodePorts_def)
      moreover have "list_all (\<lambda>p. isOK (t (portData ip m p))) []" by simp
      ultimately show ?thesis using Inl e by blast
    next
      case (Inr doc)
      with True Cons.prems
      have "renderPorts t ip m ports (urls @ [doc]) (portNames @ [resolvedName m p]) = Inl err"
        by (simp add: portData_def resolvedName_def)
      from Cons.IH [OF this] obtain pre port post where
        h: "nodePorts ports = pre @ port # post" "list_all (\<lambda>p. isOK (t (portData ip m p))) pre"
           "t (portData ip m port) = Inl err" by blast
      have "nodePorts (p # ports) = (p # pre) @ port # post" using True h(1) by (simp add: nodePorts_def)
      moreover have "list_all (\<lambda>p. isOK (t (portData ip m p))) (p # pre)"
        using h(2) Inr by (simp add: isOK_def)
      ultimately show ?thesis using h(3) by blast
    qed
  qed
qed

lemma printURLsForService_found:
  assumes "Services_Get c namespace service s = (Inr svc, s1)"
      and "Endpoints_Get c namespace service s1 = (endpoints, s2)"
  shows "printURLsForService c ip service namespace (Some t) s =
     (case renderPorts t ip (portIndex endpoints) (svc_Ports svc) [] [] of
        Inl err \<Rightarrow> ((SvcURL_zero, Some err), s2)
      | Inr (urls, portNames) \<Rightarrow>
          ((\<lparr>Namespace = svc_Namespace svc, Name = svc_Name svc,
             URLs = urls, PortNames = portNames\<rparr>, None), s2))"
  using assms by (simp add: printURLsForService_def)

lemma printURLsForService_success:
  assumes "printURLsForService c ip service namespace t s = ((r, None), s')"
  shows "\<exists>tmpl svc s1 endpoints. t = Some tmpl
     \<and> Services_Get c namespace service s = (Inr svc, s1)
     \<and> Endpoints_Get c namespace service s1 = (endpoints, s')
     \<and> Namespace r = svc_Namespace svc \<and> Name r = svc_Name svc
     \<and> PortNames r = map (resolvedName (portIndex endpoints)) (nodePorts (svc_Ports svc))
     \<and> map Inr (URLs r) =
         map (\<lambda>port. tmpl (portData ip (portIndex endpoints) port)) (nodePorts (svc_Ports svc))"
proof -
  from assms obtain tmpl where t: "t = Some tmpl"
    by (cases t) (auto simp add: printURLsForService_def)
  obtain res s1 where g: "Services_Get c namespace service s = (res, s1)" by fastforce
  from assms t g obtain svc where res: "res = Inr svc"
    by (cases res) (auto simp add: printURLsForService_def)
  obtain endpoints s2 where e: "Endpoints_Get c namespace service s1 = (endpoints, s2)" by fastforce
  note eq = printURLsForService_found [OF g [unfolded res] e, of ip tmpl]
  show ?thesis
  proof (cases "renderPorts tmpl ip (portIndex endpoints) (svc_Ports svc) [] []")
    case (Inl err)
    with eq assms t show ?thesis by simp
  next
    case (Inr p)
    obtain urls portNames where p: "p = (urls, portNames)" by (cases p)
    from eq assms t Inr p have r: "r = \<lparr>Namespace = svc_Namespace svc, Name = svc_Name svc,
             URLs = urls, PortNames = portNames\<rparr>" and s': "s' = s2" by simp_all
    from renderPorts_Inr [OF Inr [unfolded p]] r
    have "PortNames r = map (resolvedName (portIndex endpoints)) (nodePorts (svc_Ports svc))"
      and "map Inr (URLs r) =
         map (\<lambda>port. tmpl (portData ip (portIndex endpoints) port)) (nodePorts (svc_Ports svc))"
      by simp_all
    with t g res e s' r show ?thesis
      by (intro exI [where x = tmpl] exI [where x = svc] exI [where x = s1]
                exI [where x = endpoints] conjI) simp_all
  qed
qed

lemma printURLsForService_lengths:
  "length (URLs (fst (fst (printURLsForService c ip service namespace t s)))) =
   length (PortNames (fst (fst (printURLsForService c ip service namespace t s))))"
proof (cases "snd (fst (printURLsForService c ip service namespace t s))")
  case None
  then have "printURLsForService c ip service namespace t s =
     ((fst (fst (printURLsForService c ip service namespace t s)), None),
      snd (printURLsForService c ip service namespace t s))"
    by (metis prod.collapse)
  from printURLsForService_success [OF this] show ?thesis
    by (elim exE conjE) (metis length_map)
next
  case (Some err)
  have "fst (fst (printURLsForService c ip service namespace t s)) = SvcURL_zero"
    using Some
    by (auto simp add: printURLsForService_def split: option.splits prod.splits sum.splits)
  then show ?thesis by (simp add: SvcURL_zero_def)
qed

text \<open>The example cluster, evaluated.\<close>

lemma ex_sless: "0 <s (30080 :: 32 word)" "0 <s (30910 :: 32 word)" "\<not> 0 <s (0 :: 32 word)"
  by (simp_all add: word_sless_alt)

lemma ex_web_found:
  "Services_Get memCore ''default'' ''web'' exWorld = (Inr exWeb, exWorld)"
  "Endpoints_Get memCore ''default'' ''web'' exWorld = ((Some exEndpoints, None), exWorld)"
  by (simp_all add: memCore_def exWorld_def exWeb_def)

lemma ex_index:
  "portIndex (Some exEndpoints, None) 8080 = Some ''http-alt''"
  "portIndex (Some exEndpoints, None) 0 = None"
  by (simp_all add: portIndex_def indexSubsets_def exEndpoints_def)

lemma ex_nodePorts: "nodePorts exPorts = [exPorts ! 0, exPorts ! 2]"
  by (simp add: nodePorts_def exPorts_def ex_sless)

lemma ex_web_urls:
  "printURLsForService memCore ''10.0.0.1'' ''web'' ''default'' (Some exTemplate) exWorld =
     ((\<lparr>Namespace = ''default'', Name = ''web'',
        URLs = [''http://10.0.0.1/http-alt'', ''http://10.0.0.1/''],
        PortNames = [''http-alt'', []]\<rparr>, None), exWorld)"
  by (simp add: printURLsForService_found [OF ex_web_found] exWeb_def exPorts_def ex_index
        mapIndex_def exTemplate_def FromInt_def FromString_def ex_sless)

lemma ex_web_fails:
  "printURLsForService memCore ''10.0.0.1'' ''web'' ''default'' (Some failingTemplate) exWorld =
     ((SvcURL_zero, Some (New ''template: cannot evaluate field'')), exWorld)"
  by (simp add: printURLsForService_found [OF ex_web_found] exWeb_def exPorts_def ex_index
        mapIndex_def failingTemplate_def FromInt_def FromString_def ex_sless)

text \<open>The client in memory.\<close>

lemma CheckService_no_client:
  "GetCoreClient K s = (Inl err, s1) \<Longrightarrow>
     CheckService K namespace service s = (Some (Wrap err ''Error getting kubernetes client''), s1)"
  by (simp add: CheckService_def)

lemma mem_client: "GetCoreClient memK8s w = (Inr memCore, w)"
  by (simp add: memK8s_def)

lemma mem_Services_Get:
  "Services_Get memCore namespace name w =
     (case find (\<lambda>svc. svc_Namespace svc = namespace \<and> svc_Name svc = name) (w_services w) of
        None \<Rightarrow> (Inl (NotFound name), w)
      | Some svc \<Rightarrow> (Inr svc, w))"
  by (simp add: memCore_def)

lemma ex_services:
  "Services_Get memCore ''default'' ''missing'' exWorld = (Inl (NotFound ''missing''), exWorld)"
  "Services_Get memCore ''default'' ''empty'' exWorld =
     (Inr \<lparr>svc_Namespace = ''default'', svc_Name = ''empty'', svc_Ports = []\<rparr>, exWorld)"
  by (simp_all add: mem_Services_Get exWorld_def exWeb_def)

lemma DeleteSecret_mem_absent:
  "find (isSecret namespace name) (w_secrets w) = None \<Longrightarrow>
     DeleteSecret memK8s namespace name w = (Some (RetriableError (NotFound name)), w)"
  by (simp add: DeleteSecret_def mem_client memCore_def)


lemma ex_secrets:
  "find (isSecret ''default'' ''api-key'') (w_secrets exWorld) = None"
  "find (isSecret ''default'' ''db-pass'') (w_secrets exWorld) =
     Some (''default'', opaqueSecret ''db-pass'' [''password'' \<mapsto> ''old''] Map.empty)"
  by (simp_all add: exWorld_def isSecret_def opaqueSecret_def)

















text \<open>The second cluster, evaluated.\<close>

lemma ex_zero_found:
  "Services_Get memCore ''default'' ''zero'' exZeroWorld = (Inr exZero, exZeroWorld)"
  "Endpoints_Get memCore ''default'' ''zero'' exZeroWorld =
     ((Some \<lparr>Subsets = [\<lparr>subset_Ports = [\<lparr>ep_Name = ''metrics'', ep_Port = 0\<rparr>]\<rparr>]\<rparr>, None),
      exZeroWorld)"
  by (simp_all add: memCore_def exZeroWorld_def exZero_def)

lemma ex_zero_urls:
  "printURLsForService memCore ''10.0.0.1'' ''zero'' ''default'' (Some exTemplate) exZeroWorld =
     ((\<lparr>Namespace = ''default'', Name = ''zero'',
        URLs = [''http://10.0.0.1/metrics''], PortNames = [''metrics'']\<rparr>, None), exZeroWorld)"
  by (simp add: printURLsForService_found [OF ex_zero_found] exZero_def portIndex_def
        indexSubsets_def mapIndex_def exTemplate_def FromString_def ex_sless)

text \<open>Replacing the first occurrence.\<close>

lemma prefix_short: "prefix xs (ys @ zs) \<Longrightarrow> length xs \<le> length ys \<Longrightarrow> prefix xs ys"
  by (auto simp add: prefix_append)

lemma replace_absent: "\<not> occursIn old s \<Longrightarrow> strings_Replace1 s old new = s"
proof (induction s)
  case Nil
  then show ?case by (simp add: strings_Replace1.simps)
next
  case (Cons c cs)
  then show ?case by (subst strings_Replace1.simps) simp
qed

lemma replace_first:
  assumes "old \<noteq> []"
  shows "\<not> occursIn old (pre @ butlast old) \<Longrightarrow>
         strings_Replace1 (pre @ old @ post) old new = pre @ new @ post"
proof (induction pre)
  case Nil
  show ?case by (subst strings_Replace1.simps) simp
next
  case (Cons c pre)
  from Cons.prems have np: "\<not> prefix old (c # pre @ butlast old)"
    and no: "\<not> occursIn old (pre @ butlast old)" by simp_all
  have split: "(c # pre) @ old @ post = (c # pre @ butlast old) @ ([last old] @ post)"
    using assms by simp
  have "\<not> prefix old ((c # pre) @ old @ post)"
  proof
    assume "prefix old ((c # pre) @ old @ post)"
    then have "prefix old ((c # pre @ butlast old) @ ([last old] @ post))"
      by (simp only: split)
    moreover have "length old \<le> length (c # pre @ butlast old)" using assms by simp
    ultimately have "prefix old (c # pre @ butlast old)" by (rule prefix_short)
    with np show False by simp
  qed
  then have "strings_Replace1 ((c # pre) @ old @ post) old new =
             c # strings_Replace1 (pre @ old @ post) old new"
    by (subst strings_Replace1.simps) simp
  with Cons.IH [OF no] show ?case by simp
qed

lemma ex_parse:
  "parseScheme ''http://10.0.0.1:3000'' = Inr \<lparr>Scheme = ''http''\<rparr>"
  "parseScheme ''https://x'' = Inr \<lparr>Scheme = ''https''\<rparr>"
  "parseScheme ''HTTP://http.local'' = Inr \<lparr>Scheme = ''http''\<rparr>"
  by code_simp+

text \<open>The environment in memory.\<close>

lemma memEnv_fields:
  "K8s (memEnv ip) = memK8s"
  "retry_Expo (memEnv ip) callback initInterval maxTime w =
     callback (emit (ExpoCalled initInterval maxTime) w)"
  "table_Render (memEnv ip) header data = emit (TableRendered header data)"
  "out_T (memEnv ip) style format args = emit (Printed style format args)"
  by (simp_all add: memEnv_def)

lemma mem_GetServiceURLsForService:
  "GetServiceURLsForService (memEnv ip) namespace service t w =
     printURLsForService memCore ip service namespace t w"
  by (simp add: GetServiceURLsForService_def memEnv_def mem_client)

lemma emit_keeps:
  "w_services (emit e w) = w_services w"
  "w_endpoints (emit e w) = w_endpoints w"
  by (simp_all add: emit_def)

lemma ex_internal:
  assumes "w_services w = w_services exWorld" and "w_endpoints w = w_endpoints exWorld"
  shows "CheckService memK8s ''default'' ''internal'' w = (None, w)"
    and "printURLsForService memCore ip ''internal'' ''default'' (Some t) w =
           ((\<lparr>Namespace = ''default'', Name = ''internal'', URLs = [], PortNames = []\<rparr>, None), w)"
proof -
  have g: "Services_Get memCore ''default'' ''internal'' w =
     (Inr \<lparr>svc_Namespace = ''default'', svc_Name = ''internal'',
           svc_Ports = [\<lparr>sp_Name = ''grpc'', sp_Port = 50051, TargetPort = FromInt 50051,
                         NodePort = 0\<rparr>]\<rparr>, w)"
    by (simp add: mem_Services_Get assms exWorld_def exWeb_def)
  have e: "Endpoints_Get memCore ''default'' ''internal'' w = ((None, Some (NotFound ''internal'')), w)"
    by (simp add: memCore_def assms exWorld_def)
  show "CheckService memK8s ''default'' ''internal'' w = (None, w)"
    by (simp add: CheckService_def mem_client g)
  show "printURLsForService memCore ip ''internal'' ''default'' (Some t) w =
           ((\<lparr>Namespace = ''default'', Name = ''internal'', URLs = [], PortNames = []\<rparr>, None), w)"
    by (simp add: printURLsForService_found [OF g e] ex_sless)
qed

section \<open>The endpoint index and the resolved URLs\<close>

text \<open>
  Claim C6. When the endpoints were fetched without an error, the index maps a port
  number to the name of the last endpoint port carrying that number, in the order in
  which the subsets and, within a subset, their ports are visited; a number that no
  endpoint port carries has no entry.
\<close>

theorem portIndex_last_wins:
  "portIndex (Some endpoints, None) k = lastNamed (allEndpointPorts (Subsets endpoints)) k"
proof (cases "Subsets endpoints")
  case Nil
  then show ?thesis by (simp add: portIndex_def allEndpointPorts_def lastNamed_def)
next
  case (Cons a list)
  then show ?thesis
    by (simp add: portIndex_def indexSubsets_last split: option.splits)
qed

text \<open>Port 8080 is named in both subsets of the example; the second name is the one kept.\<close>

theorem portIndex_last_wins_witness:
  "portIndex (Some exEndpoints, None) 8080 = Some ''http-alt''"
  using portIndex_last_wins [of exEndpoints 8080]
  by (simp add: exEndpoints_def allEndpointPorts_def lastNamed_def)

text \<open>
  Claim C1. Whatever \<open>printURLsForService\<close> returns, its \<open>URLs\<close> and \<open>PortNames\<close> have the
  same length. When it returns without an error, the template was there, the service was
  found, and both sequences have one entry for each declared port whose node port is
  strictly positive, in declaration order: \<open>PortNames\<close> lists the names those ports resolve
  to in the endpoint index, and \<open>URLs\<close> lists what the template renders for them from the
  address, the node port and that same name.
\<close>

theorem printURLsForService_ports:
  "(case printURLsForService c ip service namespace t s of
      ((r, err), s') \<Rightarrow>
        length (URLs r) = length (PortNames r) \<and>
        (err = None \<longrightarrow>
           (\<exists>tmpl svc s1 endpoints.
              t = Some tmpl \<and>
              Services_Get c namespace service s = (Inr svc, s1) \<and>
              Endpoints_Get c namespace service s1 = (endpoints, s') \<and>
              length (URLs r) = length (nodePorts (svc_Ports svc)) \<and>
              length (PortNames r) = length (nodePorts (svc_Ports svc)) \<and>
              PortNames r = map (resolvedName (portIndex endpoints)) (nodePorts (svc_Ports svc)) \<and>
              map Inr (URLs r) =
                map (\<lambda>port. tmpl (portData ip (portIndex endpoints) port))
                  (nodePorts (svc_Ports svc)))))"
proof -
  obtain r err s' where res: "printURLsForService c ip service namespace t s = ((r, err), s')"
    by (metis prod.collapse)
  have len: "length (URLs r) = length (PortNames r)"
    using printURLsForService_lengths [of c ip service namespace t s] res by simp
  have "err = None \<longrightarrow>
           (\<exists>tmpl svc s1 endpoints.
              t = Some tmpl \<and>
              Services_Get c namespace service s = (Inr svc, s1) \<and>
              Endpoints_Get c namespace service s1 = (endpoints, s') \<and>
              length (URLs r) = length (nodePorts (svc_Ports svc)) \<and>
              length (PortNames r) = length (nodePorts (svc_Ports svc)) \<and>
              PortNames r = map (resolvedName (portIndex endpoints)) (nodePorts (svc_Ports svc)) \<and>
              map Inr (URLs r) =
                map (\<lambda>port. tmpl (portData ip (portIndex endpoints) port))
                  (nodePorts (svc_Ports svc)))"
  proof
    assume "err = None"
    with res have "printURLsForService c ip service namespace t s = ((r, None), s')" by simp
    from printURLsForService_success [OF this] obtain tmpl svc s1 endpoints where
      h: "t = Some tmpl" "Services_Get c namespace service s = (Inr svc, s1)"
         "Endpoints_Get c namespace service s1 = (endpoints, s')"
         "PortNames r = map (resolvedName (portIndex endpoints)) (nodePorts (svc_Ports svc))"
         "map Inr (URLs r) =
            map (\<lambda>port. tmpl (portData ip (portIndex endpoints) port)) (nodePorts (svc_Ports svc))"
      by (elim exE conjE)
    from h(4) have l1: "length (PortNames r) = length (nodePorts (svc_Ports svc))" by simp
    with len have l2: "length (URLs r) = length (nodePorts (svc_Ports svc))" by simp
    from h l1 l2 show "\<exists>tmpl svc s1 endpoints.
              t = Some tmpl \<and>
              Services_Get c namespace service s = (Inr svc, s1) \<and>
              Endpoints_Get c namespace service s1 = (endpoints, s') \<and>
              length (URLs r) = length (nodePorts (svc_Ports svc)) \<and>
              length (PortNames r) = length (nodePorts (svc_Ports svc)) \<and>
              PortNames r = map (resolvedName (portIndex endpoints)) (nodePorts (svc_Ports svc)) \<and>
              map Inr (URLs r) =
                map (\<lambda>port. tmpl (portData ip (portIndex endpoints) port))
                  (nodePorts (svc_Ports svc))"
      by (intro exI [where x = tmpl] exI [where x = svc] exI [where x = s1]
                exI [where x = endpoints] conjI)
  qed
  with len res show ?thesis by simp
qed

text \<open>On the example cluster two of the three ports of \<open>default/web\<close> have a node port.\<close>

theorem printURLsForService_ports_witness:
  "(case printURLsForService memCore ''10.0.0.1'' ''web'' ''default'' (Some exTemplate) exWorld of
      ((r, err), s') \<Rightarrow>
        err = None \<and> length (nodePorts (svc_Ports exWeb)) = 2 \<and>
        URLs r = [''http://10.0.0.1/http-alt'', ''http://10.0.0.1/''] \<and>
        PortNames r = [''http-alt'', []])"
  using printURLsForService_ports
          [where c = memCore and ip = "''10.0.0.1''" and service = "''web''"
             and namespace = "''default''" and t = "Some exTemplate" and s = exWorld]
  by (simp add: ex_web_urls ex_nodePorts exWeb_def)

text \<open>
  Claim C5. Without a template \<open>printURLsForService\<close> returns an error and the zero
  \<open>SvcURL\<close>, whatever its other arguments, and asks the cluster nothing. With a template
  that fails on some port that has a node port, it returns the error of the first such
  port on which the template fails, together with the zero \<open>SvcURL\<close>: nothing of what
  was rendered for the ports before is returned.
\<close>

theorem printURLsForService_errors:
  "printURLsForService c ip service namespace None s =
     ((SvcURL_zero,
       Some (New ''Error, attempted to generate service url with nil --format template'')), s)
   \<and> (\<forall>svc s1 endpoints s2 port e.
         Services_Get c namespace service s = (Inr svc, s1) \<and>
         Endpoints_Get c namespace service s1 = (endpoints, s2) \<and>
         port \<in> set (nodePorts (svc_Ports svc)) \<and>
         t (portData ip (portIndex endpoints) port) = Inl e \<longrightarrow>
         (\<exists>pre bad post err.
            nodePorts (svc_Ports svc) = pre @ bad # post \<and>
            list_all (\<lambda>p. isOK (t (portData ip (portIndex endpoints) p))) pre \<and>
            t (portData ip (portIndex endpoints) bad) = Inl err \<and>
            printURLsForService c ip service namespace (Some t) s = ((SvcURL_zero, Some err), s2)))"
proof (intro conjI allI impI)
  show "printURLsForService c ip service namespace None s =
     ((SvcURL_zero,
       Some (New ''Error, attempted to generate service url with nil --format template'')), s)"
    by (simp add: printURLsForService_def)
next
  fix svc s1 endpoints s2 port e
  assume h: "Services_Get c namespace service s = (Inr svc, s1) \<and>
         Endpoints_Get c namespace service s1 = (endpoints, s2) \<and>
         port \<in> set (nodePorts (svc_Ports svc)) \<and>
         t (portData ip (portIndex endpoints) port) = Inl e"
  then have g: "Services_Get c namespace service s = (Inr svc, s1)"
    and ep: "Endpoints_Get c namespace service s1 = (endpoints, s2)"
    and mem: "port \<in> set (nodePorts (svc_Ports svc))"
    and bad: "t (portData ip (portIndex endpoints) port) = Inl e" by simp_all
  have "\<exists>err. renderPorts t ip (portIndex endpoints) (svc_Ports svc) [] [] = Inl err"
    using mem bad by (rule renderPorts_fails)
  then obtain err where
    r: "renderPorts t ip (portIndex endpoints) (svc_Ports svc) [] [] = Inl err" by blast
  from renderPorts_Inl_first [OF r] obtain pre bad post where
    f: "nodePorts (svc_Ports svc) = pre @ bad # post"
       "list_all (\<lambda>p. isOK (t (portData ip (portIndex endpoints) p))) pre"
       "t (portData ip (portIndex endpoints) bad) = Inl err" by blast
  have "printURLsForService c ip service namespace (Some t) s = ((SvcURL_zero, Some err), s2)"
    by (simp add: printURLsForService_found [OF g ep] r)
  with f show "\<exists>pre bad post err.
            nodePorts (svc_Ports svc) = pre @ bad # post \<and>
            list_all (\<lambda>p. isOK (t (portData ip (portIndex endpoints) p))) pre \<and>
            t (portData ip (portIndex endpoints) bad) = Inl err \<and>
            printURLsForService c ip service namespace (Some t) s = ((SvcURL_zero, Some err), s2)"
    by blast
qed

text \<open>On the example cluster the failing template gives up on the third port, after rendering the first.\<close>

theorem printURLsForService_errors_witness:
  "Services_Get memCore ''default'' ''web'' exWorld = (Inr exWeb, exWorld) \<and>
   Endpoints_Get memCore ''default'' ''web'' exWorld = ((Some exEndpoints, None), exWorld) \<and>
   exPorts ! 2 \<in> set (nodePorts (svc_Ports exWeb)) \<and>
   failingTemplate (portData ''10.0.0.1'' (portIndex (Some exEndpoints, None)) (exPorts ! 2)) =
     Inl (New ''template: cannot evaluate field'') \<and>
   (\<exists>err. printURLsForService memCore ''10.0.0.1'' ''web'' ''default'' (Some failingTemplate) exWorld =
      ((SvcURL_zero, Some err), exWorld))"
proof -
  have h: "Services_Get memCore ''default'' ''web'' exWorld = (Inr exWeb, exWorld) \<and>
   Endpoints_Get memCore ''default'' ''web'' exWorld = ((Some exEndpoints, None), exWorld) \<and>
   exPorts ! 2 \<in> set (nodePorts (svc_Ports exWeb)) \<and>
   failingTemplate (portData ''10.0.0.1'' (portIndex (Some exEndpoints, None)) (exPorts ! 2)) =
     Inl (New ''template: cannot evaluate field'')"
  proof (intro conjI)
    show "exPorts ! 2 \<in> set (nodePorts (svc_Ports exWeb))"
      by (simp add: exWeb_def ex_nodePorts)
    show "failingTemplate (portData ''10.0.0.1'' (portIndex (Some exEndpoints, None)) (exPorts ! 2)) =
       Inl (New ''template: cannot evaluate field'')"
      by (simp add: failingTemplate_def portData_def exPorts_def)
  qed (simp_all add: ex_web_found)
  from printURLsForService_errors
         [where c = memCore and ip = "''10.0.0.1''" and service = "''web''"
            and namespace = "''default''" and s = exWorld and t = failingTemplate,
          THEN conjunct2, rule_format, OF h]
  have "\<exists>err. printURLsForService memCore ''10.0.0.1'' ''web'' ''default'' (Some failingTemplate) exWorld =
      ((SvcURL_zero, Some err), exWorld)" by blast
  with h show ?thesis by blast
qed

text \<open>
  Claim C10, as stated, has the resolved name never be the declared name. On the second
  example cluster the endpoints list a port numbered 0 that is named \<open>metrics\<close>, and the
  port whose target port is declared as \<open>metrics\<close> resolves to that name.
\<close>

theorem printURLsForService_named_target_port_counterexample:
  "map TargetPort (svc_Ports exZero) = [FromString ''metrics'']
   \<and> snd (fst (printURLsForService memCore ''10.0.0.1'' ''zero'' ''default'' (Some exTemplate)
                  exZeroWorld)) = None
   \<and> PortNames (fst (fst (printURLsForService memCore ''10.0.0.1'' ''zero'' ''default''
                  (Some exTemplate) exZeroWorld))) = [''metrics'']"
  by (simp add: ex_zero_urls exZero_def)

text \<open>
  Claim C10, amended. For a port with a node port whose target port was declared by name
  (\<open>intstr.FromString\<close>, which leaves the integer value at zero), the name in \<open>PortNames\<close>
  and the name handed to the template are what the endpoint index holds for port number
  0, and the empty string when the index has no entry for 0. The declared name is not
  read: the resolved name equals it only when the index holds that very name for port
  0 (or the declared name is empty and there is no entry), and with no entry for 0 it
  differs from every non-empty declared name.
\<close>

theorem printURLsForService_named_target_port:
  assumes "printURLsForService c ip service namespace (Some t) s = ((r, None), s')"
      and "Services_Get c namespace service s = (Inr svc, s1)"
      and "Endpoints_Get c namespace service s1 = (endpoints, s2)"
      and "i < length (nodePorts (svc_Ports svc))"
      and "TargetPort (nodePorts (svc_Ports svc) ! i) = FromString nm"
  shows "PortNames r ! i = mapIndex (portIndex endpoints) 0
       \<and> Inr (URLs r ! i) =
           t \<lparr>td_IP = ip, td_Port = NodePort (nodePorts (svc_Ports svc) ! i),
              td_Name = mapIndex (portIndex endpoints) 0\<rparr>
       \<and> (portIndex endpoints 0 = None \<longrightarrow> PortNames r ! i = [])
       \<and> (PortNames r ! i = nm \<longleftrightarrow> mapIndex (portIndex endpoints) 0 = nm)
       \<and> (portIndex endpoints 0 = None \<and> nm \<noteq> [] \<longrightarrow> PortNames r ! i \<noteq> nm)"
proof -
  from printURLsForService_success [OF assms(1)] assms(2,3)
  have pn: "PortNames r = map (resolvedName (portIndex endpoints)) (nodePorts (svc_Ports svc))"
    and us: "map Inr (URLs r) =
         map (\<lambda>port. t (portData ip (portIndex endpoints) port)) (nodePorts (svc_Ports svc))"
    by auto
  have rn: "resolvedName (portIndex endpoints) (nodePorts (svc_Ports svc) ! i) =
            mapIndex (portIndex endpoints) 0"
    using assms(5) by (simp add: resolvedName_def FromString_def)
  from pn assms(4) rn have a: "PortNames r ! i = mapIndex (portIndex endpoints) 0" by simp
  from us have "length (URLs r) = length (nodePorts (svc_Ports svc))" by (metis length_map)
  with assms(4) have "Inr (URLs r ! i) = map Inr (URLs r) ! i" by simp
  also have "\<dots> = map (\<lambda>port. t (portData ip (portIndex endpoints) port))
                    (nodePorts (svc_Ports svc)) ! i"
    by (simp only: us)
  also have "\<dots> = t (portData ip (portIndex endpoints) (nodePorts (svc_Ports svc) ! i))"
    using assms(4) by simp
  finally have "Inr (URLs r ! i) =
        t (portData ip (portIndex endpoints) (nodePorts (svc_Ports svc) ! i))" .
  then have b: "Inr (URLs r ! i) =
           t \<lparr>td_IP = ip, td_Port = NodePort (nodePorts (svc_Ports svc) ! i),
              td_Name = mapIndex (portIndex endpoints) 0\<rparr>"
    using rn by (simp add: portData_def)
  from a b show ?thesis by (auto simp add: mapIndex_def)
qed

text \<open>
  The third port of \<open>default/web\<close> targets the port named \<open>metrics\<close>, which the endpoints
  do list under 9100; the resolved name is empty all the same.
\<close>

theorem printURLsForService_named_target_port_witness:
  "printURLsForService memCore ''10.0.0.1'' ''web'' ''default'' (Some exTemplate) exWorld =
     ((\<lparr>Namespace = ''default'', Name = ''web'',
        URLs = [''http://10.0.0.1/http-alt'', ''http://10.0.0.1/''],
        PortNames = [''http-alt'', []]\<rparr>, None), exWorld)
   \<and> Services_Get memCore ''default'' ''web'' exWorld = (Inr exWeb, exWorld)
   \<and> Endpoints_Get memCore ''default'' ''web'' exWorld = ((Some exEndpoints, None), exWorld)
   \<and> (1::nat) < length (nodePorts (svc_Ports exWeb))
   \<and> TargetPort (nodePorts (svc_Ports exWeb) ! 1) = FromString ''metrics''
   \<and> [''http-alt'', []] ! 1 = mapIndex (portIndex (Some exEndpoints, None)) 0
   \<and> [''http-alt'', []] ! 1 \<noteq> ''metrics''"
proof -
  have np: "nodePorts (svc_Ports exWeb) = [exPorts ! 0, exPorts ! 2]"
    by (simp add: exWeb_def ex_nodePorts)
  have h4: "(1::nat) < length (nodePorts (svc_Ports exWeb))" by (simp add: np)
  have h5: "TargetPort (nodePorts (svc_Ports exWeb) ! 1) = FromString ''metrics''"
    by (simp add: np exPorts_def)
  from printURLsForService_named_target_port
         [OF ex_web_urls ex_web_found(1) ex_web_found(2) h4 h5]
  have "[''http-alt'', []] ! 1 = mapIndex (portIndex (Some exEndpoints, None)) 0
      \<and> [''http-alt'', []] ! 1 \<noteq> ''metrics''"
    by (simp add: ex_index)
  with ex_web_urls ex_web_found h4 h5 show ?thesis by blast
qed

section \<open>Readiness and secrets\<close>

text \<open>
  Claim C2. Once the client is obtained, \<open>CheckService\<close> answers in one of three ways. If
  fetching the service fails, it returns a \<open>RetriableError\<close> around the cause (wrapped with
  the service name). If the service is fetched and declares no port, it returns a plain
  error, which is not retriable. If the service is fetched and declares a port, it
  returns no error. (When the client itself cannot be obtained, the error is a plain
  wrapped one, see \<open>CheckService_no_client\<close>; the claim is about the fetch.)
\<close>

theorem CheckService_classification:
  assumes "GetCoreClient K s = (Inr client, s1)"
  shows "(\<forall>err s2. Services_Get client namespace service s1 = (Inl err, s2) \<longrightarrow>
            CheckService K namespace service s =
              (Some (RetriableError (Wrap err (''Error getting service '' @ service))), s2)
            \<and> isRetriable (RetriableError (Wrap err (''Error getting service '' @ service))))
       \<and> (\<forall>svc s2. Services_Get client namespace service s1 = (Inr svc, s2) \<and> svc_Ports svc = [] \<longrightarrow>
            CheckService K namespace service s =
              (Some (New (namespace @ '':'' @ service @ '' has no ports'')), s2)
            \<and> \<not> isRetriable (New (namespace @ '':'' @ service @ '' has no ports'')))
       \<and> (\<forall>svc s2. Services_Get client namespace service s1 = (Inr svc, s2) \<and> svc_Ports svc \<noteq> [] \<longrightarrow>
            CheckService K namespace service s = (None, s2))"
  using assms by (simp add: CheckService_def)

text \<open>On the example cluster: a service that is missing, one without ports, and \<open>default/web\<close>.\<close>

theorem CheckService_classification_witness:
  "GetCoreClient memK8s exWorld = (Inr memCore, exWorld)
   \<and> Services_Get memCore ''default'' ''missing'' exWorld = (Inl (NotFound ''missing''), exWorld)
   \<and> CheckService memK8s ''default'' ''missing'' exWorld =
       (Some (RetriableError (Wrap (NotFound ''missing'') ''Error getting service missing'')), exWorld)
   \<and> Services_Get memCore ''default'' ''empty'' exWorld =
       (Inr \<lparr>svc_Namespace = ''default'', svc_Name = ''empty'', svc_Ports = []\<rparr>, exWorld)
   \<and> CheckService memK8s ''default'' ''empty'' exWorld =
       (Some (New ''default:empty has no ports''), exWorld)
   \<and> Services_Get memCore ''default'' ''web'' exWorld = (Inr exWeb, exWorld)
   \<and> svc_Ports exWeb \<noteq> []
   \<and> CheckService memK8s ''default'' ''web'' exWorld = (None, exWorld)"
proof -
  note c = CheckService_classification [OF mem_client [of exWorld]]
  have p: "svc_Ports exWeb \<noteq> []" by (simp add: exWeb_def exPorts_def)
  have p0: "svc_Ports \<lparr>svc_Namespace = ''default'', svc_Name = ''empty'', svc_Ports = []\<rparr> = []"
    by simp
  from c [of "''default''" "''missing''", THEN conjunct1, rule_format, OF ex_services(1)]
  have a: "CheckService memK8s ''default'' ''missing'' exWorld =
       (Some (RetriableError (Wrap (NotFound ''missing'') ''Error getting service missing'')), exWorld)"
    by simp
  from c [of "''default''" "''empty''", THEN conjunct2, THEN conjunct1, rule_format,
          OF conjI [OF ex_services(2) p0]]
  have b: "CheckService memK8s ''default'' ''empty'' exWorld =
       (Some (New ''default:empty has no ports''), exWorld)"
    by simp
  from c [of "''default''" "''web''", THEN conjunct2, THEN conjunct2, rule_format,
          OF conjI [OF ex_web_found(1) p]]
  have d: "CheckService memK8s ''default'' ''web'' exWorld = (None, exWorld)" .
  from a b d p ex_services ex_web_found(1) mem_client [of exWorld] show ?thesis by blast
qed

text \<open>
  Claim C9. \<open>DeleteSecret\<close> returns a \<open>RetriableError\<close> around the cause when the client
  cannot be obtained and when the delete call fails, and no error otherwise. On the
  cluster in memory, deleting a secret that does not exist is such a failure.
\<close>

theorem DeleteSecret_retriable:
  "(\<forall>err s1. GetCoreClient K s = (Inl err, s1) \<longrightarrow>
      DeleteSecret K namespace name s = (Some (RetriableError err), s1))
   \<and> (\<forall>client s1 err s2. GetCoreClient K s = (Inr client, s1) \<and>
         Secrets_Delete client namespace name s1 = (Some err, s2) \<longrightarrow>
      DeleteSecret K namespace name s = (Some (RetriableError err), s2))
   \<and> (\<forall>client s1 s2. GetCoreClient K s = (Inr client, s1) \<and>
         Secrets_Delete client namespace name s1 = (None, s2) \<longrightarrow>
      DeleteSecret K namespace name s = (None, s2))
   \<and> (\<forall>err. isRetriable (RetriableError err))
   \<and> (find (isSecret namespace name) (w_secrets w) = None \<longrightarrow>
        DeleteSecret memK8s namespace name w = (Some (RetriableError (NotFound name)), w))"
proof (intro conjI)
  show "find (isSecret namespace name) (w_secrets w) = None \<longrightarrow>
        DeleteSecret memK8s namespace name w = (Some (RetriableError (NotFound name)), w)"
    by (simp add: DeleteSecret_mem_absent)
qed (simp_all add: DeleteSecret_def)

text \<open>A client that cannot be obtained, and a secret that is not there.\<close>

theorem DeleteSecret_retriable_witness:
  "GetCoreClient brokenK8s exWorld = (Inl (New ''kubeConfig: no configuration''), exWorld)
   \<and> DeleteSecret brokenK8s ''default'' ''db-pass'' exWorld =
       (Some (RetriableError (New ''kubeConfig: no configuration'')), exWorld)
   \<and> find (isSecret ''default'' ''api-key'') (w_secrets exWorld) = None
   \<and> DeleteSecret memK8s ''default'' ''api-key'' exWorld =
       (Some (RetriableError (NotFound ''api-key'')), exWorld)"
proof -
  have g: "GetCoreClient brokenK8s exWorld = (Inl (New ''kubeConfig: no configuration''), exWorld)"
    by (simp add: brokenK8s_def)
  note d = DeleteSecret_retriable [where K = brokenK8s and s = exWorld and w = exWorld
             and namespace = "''default''"]
  from d [where name = "''db-pass''", THEN conjunct1, rule_format, OF g]
  have a: "DeleteSecret brokenK8s ''default'' ''db-pass'' exWorld =
       (Some (RetriableError (New ''kubeConfig: no configuration'')), exWorld)" .
  from d [where name = "''api-key''", THEN conjunct2, THEN conjunct2, THEN conjunct2,
          THEN conjunct2, rule_format, OF ex_secrets(1)]
  have b: "DeleteSecret memK8s ''default'' ''api-key'' exWorld =
       (Some (RetriableError (NotFound ''api-key'')), exWorld)" .
  from g a b ex_secrets(1) show ?thesis by blast
qed




section \<open>The HTTPS rule\<close>

text \<open>
  Claim C3, as the specification states it, gives \<open>(http://10.0.0.1:3000, false)\<close> as the
  result for the flag \<open>false\<close>. The code returns the boolean \<open>true\<close> there: the URL has
  the scheme \<open>http\<close>, and the flag plays no part in the boolean.
\<close>

theorem OptionallyHTTPSFormattedURLString_flag_false_counterexample:
  "OptionallyHTTPSFormattedURLString parseScheme ''http://10.0.0.1:3000'' False =
     (''http://10.0.0.1:3000'', True)
   \<and> OptionallyHTTPSFormattedURLString parseScheme ''http://10.0.0.1:3000'' False \<noteq>
     (''http://10.0.0.1:3000'', False)"
  by (simp add: OptionallyHTTPSFormattedURLString_def ex_parse)

text \<open>
  Claim C3, amended. For a URL that parses with the scheme \<open>http\<close> the returned boolean
  is true, whatever the flag. With the flag set the returned string is
  \<open>strings.Replace(url, "http", "https", 1)\<close>, that is the URL with its first occurrence of
  \<open>http\<close>, wherever it stands, replaced by \<open>https\<close> (and the URL itself when \<open>http\<close> does
  not occur in it); without the flag the URL is returned unchanged. A URL that does not
  parse, or parses with another scheme, is returned unchanged with the boolean false.
  In particular \<open>http://10.0.0.1:3000\<close> gives \<open>(https://10.0.0.1:3000, true)\<close> with the
  flag and \<open>(http://10.0.0.1:3000, true)\<close> without it, and \<open>https://x\<close> with the flag gives
  \<open>(https://x, false)\<close>.
\<close>

theorem OptionallyHTTPSFormattedURLString_http:
  "(\<forall>u. parse url = Inr u \<and> Scheme u = ''http'' \<longrightarrow>
      snd (OptionallyHTTPSFormattedURLString parse url https) = True
      \<and> (https \<longrightarrow>
            fst (OptionallyHTTPSFormattedURLString parse url https) =
              strings_Replace1 url ''http'' ''https''
            \<and> (\<forall>pre post. url = pre @ ''http'' @ post \<and> \<not> occursIn ''http'' (pre @ ''htt'') \<longrightarrow>
                  fst (OptionallyHTTPSFormattedURLString parse url https) = pre @ ''https'' @ post)
            \<and> (\<not> occursIn ''http'' url \<longrightarrow>
                  fst (OptionallyHTTPSFormattedURLString parse url https) = url))
      \<and> (\<not> https \<longrightarrow> fst (OptionallyHTTPSFormattedURLString parse url https) = url))
   \<and> ((\<forall>u. parse url = Inr u \<longrightarrow> Scheme u \<noteq> ''http'') \<longrightarrow>
        OptionallyHTTPSFormattedURLString parse url https = (url, False))
   \<and> OptionallyHTTPSFormattedURLString parseScheme ''http://10.0.0.1:3000'' True =
        (''https://10.0.0.1:3000'', True)
   \<and> OptionallyHTTPSFormattedURLString parseScheme ''http://10.0.0.1:3000'' False =
        (''http://10.0.0.1:3000'', True)
   \<and> OptionallyHTTPSFormattedURLString parseScheme ''https://x'' True = (''https://x'', False)"
proof (intro conjI allI impI)
  fix u pre post
  assume "parse url = Inr u \<and> Scheme u = ''http''" and https
     and h: "url = pre @ ''http'' @ post \<and> \<not> occursIn ''http'' (pre @ ''htt'')"
  then have "fst (OptionallyHTTPSFormattedURLString parse url https) =
             strings_Replace1 (pre @ ''http'' @ post) ''http'' ''https''"
    by (simp add: OptionallyHTTPSFormattedURLString_def)
  also have "\<dots> = pre @ ''https'' @ post"
    using h replace_first [of "''http''" pre post "''https''"] by simp
  finally show "fst (OptionallyHTTPSFormattedURLString parse url https) = pre @ ''https'' @ post" .
next
  fix u
  assume "parse url = Inr u \<and> Scheme u = ''http''" and https
     and "\<not> occursIn ''http'' url"
  then show "fst (OptionallyHTTPSFormattedURLString parse url https) = url"
    by (simp add: OptionallyHTTPSFormattedURLString_def replace_absent)
next
  assume "\<forall>u. parse url = Inr u \<longrightarrow> Scheme u \<noteq> ''http''"
  then show "OptionallyHTTPSFormattedURLString parse url https = (url, False)"
    by (cases "parse url") (simp_all add: OptionallyHTTPSFormattedURLString_def)
next
  show "OptionallyHTTPSFormattedURLString parseScheme ''http://10.0.0.1:3000'' True =
        (''https://10.0.0.1:3000'', True)"
    by (simp add: OptionallyHTTPSFormattedURLString_def ex_parse strings_Replace1.simps)
next
  show "OptionallyHTTPSFormattedURLString parseScheme ''https://x'' True = (''https://x'', False)"
    by (simp add: OptionallyHTTPSFormattedURLString_def ex_parse)
qed (simp_all add: OptionallyHTTPSFormattedURLString_def ex_parse)

text \<open>
  \<open>HTTP://http.local\<close> parses with the scheme \<open>http\<close>, since the parser lower-cases it; the
  first \<open>http\<close> in the string is in the host name, and that is the one replaced.
\<close>

theorem OptionallyHTTPSFormattedURLString_http_witness:
  "parseScheme ''HTTP://http.local'' = Inr \<lparr>Scheme = ''http''\<rparr>
   \<and> Scheme \<lparr>Scheme = ''http''\<rparr> = ''http''
   \<and> ''HTTP://http.local'' = ''HTTP://'' @ ''http'' @ ''.local''
   \<and> \<not> occursIn ''http'' (''HTTP://'' @ ''htt'')
   \<and> OptionallyHTTPSFormattedURLString parseScheme ''HTTP://http.local'' True =
       (''HTTP://https.local'', True)
   \<and> OptionallyHTTPSFormattedURLString parseScheme ''HTTP://http.local'' False =
       (''HTTP://http.local'', True)
   \<and> OptionallyHTTPSFormattedURLString parseScheme ''https://x'' True = (''https://x'', False)"
proof -
  note t = OptionallyHTTPSFormattedURLString_http
             [where parse = parseScheme and url = "''HTTP://http.local''"]
  have p: "parseScheme ''HTTP://http.local'' = Inr \<lparr>Scheme = ''http''\<rparr>
           \<and> Scheme \<lparr>Scheme = ''http''\<rparr> = ''http''"
    by (simp add: ex_parse)
  have o: "''HTTP://http.local'' = ''HTTP://'' @ ''http'' @ ''.local''
           \<and> \<not> occursIn ''http'' (''HTTP://'' @ ''htt'')"
    by simp
  note t1 = t [where https = True, THEN conjunct1, rule_format, OF p]
  have s1: "snd (OptionallyHTTPSFormattedURLString parseScheme ''HTTP://http.local'' True) = True"
    by (rule t1 [THEN conjunct1])
  have f1: "fst (OptionallyHTTPSFormattedURLString parseScheme ''HTTP://http.local'' True) =
             ''HTTP://'' @ ''https'' @ ''.local''"
    by (rule t1 [THEN conjunct2, THEN conjunct1, rule_format, OF TrueI,
                 THEN conjunct2, THEN conjunct1, rule_format, OF o])
  note t2 = t [where https = False, THEN conjunct1, rule_format, OF p]
  have s2: "snd (OptionallyHTTPSFormattedURLString parseScheme ''HTTP://http.local'' False) = True"
    by (rule t2 [THEN conjunct1])
  have f2: "fst (OptionallyHTTPSFormattedURLString parseScheme ''HTTP://http.local'' False) =
             ''HTTP://http.local''"
    by (rule t2 [THEN conjunct2, THEN conjunct2, rule_format]) simp
  from s1 f1 have a: "OptionallyHTTPSFormattedURLString parseScheme ''HTTP://http.local'' True =
       (''HTTP://https.local'', True)"
    by (simp add: prod_eq_iff)
  from s2 f2 have b: "OptionallyHTTPSFormattedURLString parseScheme ''HTTP://http.local'' False =
       (''HTTP://http.local'', True)"
    by (simp add: prod_eq_iff)
  have c: "OptionallyHTTPSFormattedURLString parseScheme ''https://x'' True = (''https://x'', False)"
    by (rule t [where https = True, THEN conjunct2, THEN conjunct2, THEN conjunct2, THEN conjunct2])
  from p o a b c show ?thesis by blast
qed

section \<open>Waiting for a service\<close>

text \<open>
  Claim C4, as the specification states it, has a wait budget of zero raised to one time
  unit before the backoff loop runs. The code passes it on as it is: with \<open>wait = 0\<close> and
  \<open>interval = 0\<close> the loop is given an interval of one second and a budget of zero.
\<close>

theorem WaitAndMaybeOpenService_wait_zero_counterexample:
  "w_output (snd (WaitAndMaybeOpenService (memEnv ''10.0.0.1'') ''default'' ''web''
                    (Some exTemplate) True False 0 0 exWorld)) =
     [ExpoCalled 1000000000 0,
      Printed out_Empty ''http://10.0.0.1/http-alt'' [],
      Printed out_Empty ''http://10.0.0.1/'' []]"
  by code_simp

text \<open>
  Claim C4, amended. An interval of zero is replaced by one before the backoff loop runs:
  the call behaves exactly as with the interval one, whatever the loop and the other
  collaborators do. The wait budget is not adjusted. For every wait and interval the
  loop is run with the interval (one if it was zero) times a second and the wait times a
  second, a zero wait giving a zero budget, and nothing else in the call depends on
  either number.
\<close>

theorem WaitAndMaybeOpenService_interval:
  "WaitAndMaybeOpenService E namespace service t urlMode https wait 0 s =
     WaitAndMaybeOpenService E namespace service t urlMode https wait 1 s
   \<and> (\<exists>k. \<forall>wait' interval s'.
          WaitAndMaybeOpenService E namespace service t urlMode https wait' interval s' =
            (case retry_Expo E (CheckService (K8s E) namespace service)
                    ((if interval = 0 then 1 else interval) * Second) (wait' * Second) s' of
               (Some err, s1) \<Rightarrow>
                 (Some (Wrap err
                    (''Could not find finalized endpoint being pointed to by '' @ service)), s1)
             | (None, s1) \<Rightarrow> k s1))
   \<and> (1 :: 64 word) * Second = 1000000000 \<and> (0 :: 64 word) * Second = 0"
proof (intro conjI)
  show "WaitAndMaybeOpenService E namespace service t urlMode https wait 0 s =
     WaitAndMaybeOpenService E namespace service t urlMode https wait 1 s"
    by (simp add: WaitAndMaybeOpenService_def)
  show "\<exists>k. \<forall>wait' interval s'.
          WaitAndMaybeOpenService E namespace service t urlMode https wait' interval s' =
            (case retry_Expo E (CheckService (K8s E) namespace service)
                    ((if interval = 0 then 1 else interval) * Second) (wait' * Second) s' of
               (Some err, s1) \<Rightarrow>
                 (Some (Wrap err
                    (''Could not find finalized endpoint being pointed to by '' @ service)), s1)
             | (None, s1) \<Rightarrow> k s1)"
    unfolding WaitAndMaybeOpenService_def Let_def
    by (rule exI [where x = "\<lambda>s1.
          (case GetServiceURLsForService E namespace service t s1 of
                ((serviceURL, Some err), s2) \<Rightarrow>
                  (Some (Wrap err
                     ''Check that minikube is running and that you have specified the correct namespace''),
                   s2)
              | ((serviceURL, None), s2) \<Rightarrow>
                  (if length (URLs serviceURL) = 0
                      then (None,
                            out_T E out_Sad
                              ''service {{.namespace_name}}/{{.service_name}} has no node port''
                              [(''namespace_name'', V_string namespace),
                               (''service_name'', V_string service)] (if \<not> urlMode
                          then PrintServiceList E
                                 (if length (URLs serviceURL) = 0
                                  then [[namespace, service, [], ''No node port'']]
                                  else [[namespace, service,
                                         strings_Join (PortNames serviceURL) [CHR 0x0A],
                                         strings_Join (URLs serviceURL) [CHR 0x0A]]]) s2
                          else s2))
                      else (None, openURLs E namespace service urlMode https (URLs serviceURL) (if \<not> urlMode
                          then PrintServiceList E
                                 (if length (URLs serviceURL) = 0
                                  then [[namespace, service, [], ''No node port'']]
                                  else [[namespace, service,
                                         strings_Join (PortNames serviceURL) [CHR 0x0A],
                                         strings_Join (URLs serviceURL) [CHR 0x0A]]]) s2
                          else s2))))"]) simp
qed (simp_all add: Second_def)

text \<open>With a wait of seven seconds and no interval, the loop is given one second and seven.\<close>

theorem WaitAndMaybeOpenService_interval_witness:
  "WaitAndMaybeOpenService (memEnv ''10.0.0.1'') ''default'' ''web'' (Some exTemplate) True False 7 0 exWorld =
     WaitAndMaybeOpenService (memEnv ''10.0.0.1'') ''default'' ''web'' (Some exTemplate) True False 7 1 exWorld
   \<and> w_output (snd (WaitAndMaybeOpenService (memEnv ''10.0.0.1'') ''default'' ''web''
                    (Some exTemplate) True False 7 0 exWorld)) =
     [ExpoCalled 1000000000 7000000000,
      Printed out_Empty ''http://10.0.0.1/http-alt'' [],
      Printed out_Empty ''http://10.0.0.1/'' []]"
proof -
  have a: "WaitAndMaybeOpenService (memEnv ''10.0.0.1'') ''default'' ''web'' (Some exTemplate) True False 7 0 exWorld =
     WaitAndMaybeOpenService (memEnv ''10.0.0.1'') ''default'' ''web'' (Some exTemplate) True False 7 1 exWorld"
    by (rule WaitAndMaybeOpenService_interval [THEN conjunct1])
  have b: "w_output (snd (WaitAndMaybeOpenService (memEnv ''10.0.0.1'') ''default'' ''web''
                    (Some exTemplate) True False 7 0 exWorld)) =
     [ExpoCalled 1000000000 7000000000,
      Printed out_Empty ''http://10.0.0.1/http-alt'' [],
      Printed out_Empty ''http://10.0.0.1/'' []]"
    by code_simp
  from a b show ?thesis by (rule conjI)
qed

text \<open>
  Claim C8. When the backoff loop succeeds and the resolved \<open>URLs\<close> are empty,
  \<open>WaitAndMaybeOpenService\<close> returns no error, and the last thing it does is to print the
  notice that the service has no node port (after the table row \<open>No node port\<close>, unless it
  runs in URL mode). No URL is printed and no browser is opened.
\<close>

theorem WaitAndMaybeOpenService_no_node_port:
  assumes "retry_Expo E (CheckService (K8s E) namespace service)
             ((if interval = 0 then 1 else interval) * Second) (wait * Second) s = (None, s1)"
      and "GetServiceURLsForService E namespace service t s1 = ((serviceURL, None), s2)"
      and "URLs serviceURL = []"
  shows "WaitAndMaybeOpenService E namespace service t urlMode https wait interval s =
     (None,
      out_T E out_Sad ''service {{.namespace_name}}/{{.service_name}} has no node port''
        [(''namespace_name'', V_string namespace), (''service_name'', V_string service)]
        (if urlMode then s2
         else PrintServiceList E [[namespace, service, [], ''No node port'']] s2))"
  using assms by (simp add: WaitAndMaybeOpenService_def)

text \<open>\<open>default/internal\<close> has one port and no node port.\<close>

theorem WaitAndMaybeOpenService_no_node_port_witness:
  "retry_Expo (memEnv ''10.0.0.1'') (CheckService (K8s (memEnv ''10.0.0.1'')) ''default'' ''internal'')
     ((if (2 :: 64 word) = 0 then 1 else 2) * Second) (3 * Second) exWorld =
     (None, emit (ExpoCalled 2000000000 3000000000) exWorld)
   \<and> GetServiceURLsForService (memEnv ''10.0.0.1'') ''default'' ''internal'' (Some exTemplate)
       (emit (ExpoCalled 2000000000 3000000000) exWorld) =
       ((\<lparr>Namespace = ''default'', Name = ''internal'', URLs = [], PortNames = []\<rparr>, None),
        emit (ExpoCalled 2000000000 3000000000) exWorld)
   \<and> fst (WaitAndMaybeOpenService (memEnv ''10.0.0.1'') ''default'' ''internal'' (Some exTemplate)
            False True 3 2 exWorld) = None
   \<and> w_output (snd (WaitAndMaybeOpenService (memEnv ''10.0.0.1'') ''default'' ''internal''
                      (Some exTemplate) False True 3 2 exWorld)) =
       [ExpoCalled 2000000000 3000000000,
        TableRendered [''Namespace'', ''Name'', ''Target Port'', ''URL'']
          [[''default'', ''internal'', [], ''No node port'']],
        Printed out_Sad ''service {{.namespace_name}}/{{.service_name}} has no node port''
          [(''namespace_name'', V_string ''default''), (''service_name'', V_string ''internal'')]]"
proof -
  have h1: "retry_Expo (memEnv ''10.0.0.1'') (CheckService (K8s (memEnv ''10.0.0.1'')) ''default'' ''internal'')
     ((if (2 :: 64 word) = 0 then 1 else 2) * Second) (3 * Second) exWorld =
     (None, emit (ExpoCalled 2000000000 3000000000) exWorld)"
    by (simp add: memEnv_fields ex_internal(1) emit_keeps Second_def)
  have h2: "GetServiceURLsForService (memEnv ''10.0.0.1'') ''default'' ''internal'' (Some exTemplate)
       (emit (ExpoCalled 2000000000 3000000000) exWorld) =
       ((\<lparr>Namespace = ''default'', Name = ''internal'', URLs = [], PortNames = []\<rparr>, None),
        emit (ExpoCalled 2000000000 3000000000) exWorld)"
    by (simp add: mem_GetServiceURLsForService ex_internal(2) emit_keeps)
  have h3: "URLs \<lparr>Namespace = ''default'', Name = ''internal'', URLs = [], PortNames = []\<rparr> = []"
    by simp
  from WaitAndMaybeOpenService_no_node_port [OF h1 h2 h3, of False True]
  have "WaitAndMaybeOpenService (memEnv ''10.0.0.1'') ''default'' ''internal'' (Some exTemplate)
            False True 3 2 exWorld =
        (None, emit (Printed out_Sad ''service {{.namespace_name}}/{{.service_name}} has no node port''
          [(''namespace_name'', V_string ''default''), (''service_name'', V_string ''internal'')])
           (emit (TableRendered [''Namespace'', ''Name'', ''Target Port'', ''URL'']
              [[''default'', ''internal'', [], ''No node port'']])
              (emit (ExpoCalled 2000000000 3000000000) exWorld)))"
    by (simp add: memEnv_fields PrintServiceList_def)
  then have r: "fst (WaitAndMaybeOpenService (memEnv ''10.0.0.1'') ''default'' ''internal'' (Some exTemplate)
            False True 3 2 exWorld) = None"
    and o: "w_output (snd (WaitAndMaybeOpenService (memEnv ''10.0.0.1'') ''default'' ''internal''
                      (Some exTemplate) False True 3 2 exWorld)) =
       [ExpoCalled 2000000000 3000000000,
        TableRendered [''Namespace'', ''Name'', ''Target Port'', ''URL'']
          [[''default'', ''internal'', [], ''No node port'']],
        Printed out_Sad ''service {{.namespace_name}}/{{.service_name}} has no node port''
          [(''namespace_name'', V_string ''default''), (''service_name'', V_string ''internal'')]]"
    by (simp_all add: emit_def exWorld_def)
  from h1 h2 r o show ?thesis by blast
qed

end
